theory Spec2Isabelle
  imports Complex_Main
begin

section \<open>The per-frame update of the tanker simulation (src/main.js)\<close>

text \<open>
  The simulation keeps its state in a handful of JavaScript globals that
  \<open>updatePhysics\<close> rewrites once per animation frame. The embedding below passes that
  state explicitly as the record \<open>world\<close>.

  Numbers. JavaScript numbers are IEEE doubles; here they are the real numbers they denote,
  and \<open>+\<close>, \<open>-\<close>, \<open>*\<close>, \<open>/\<close> are exact. Every comparison, \<open>Math.min\<close>, \<open>Math.max\<close>,
  \<open>Math.abs\<close> and every assignment of a literal behaves on doubles as it does here; what the
  model leaves out is the rounding of the arithmetic operations (and NaN and the infinities,
  which no operation of the update yields from finite values short of overflow).

  Collaborators. The three.js engine and the DOM are not part of the sources. Two engine
  operations with a one-line formula (\<open>Vector3.lerp\<close>, \<open>MathUtils.lerp\<close>) are written
  out over the reals; the others (\<open>Object3D.translateZ\<close>, \<open>OrbitControls.update\<close>, and
  \<open>Vector3.lerpVectors\<close>, whose rounding decides whether a finished transition lands on
  its target) are parameters, collected in the record \<open>engine\<close>. Two instances of
  \<open>lerpVectors\<close> are defined: the formula over the reals, and the formula with every
  operation rounded to a double, which is what three.js computes. What a frame reads from outside the simulation (the key flags, the
  camera checkbox, the clock, the world matrix left by the preceding \<open>render()\<close>) is the
  record \<open>env\<close>.
\<close>

subsection \<open>Vectors\<close>

record vec3 =
  vec_x :: real
  vec_y :: real
  vec_z :: real

definition Vector3 :: "real \<Rightarrow> real \<Rightarrow> real \<Rightarrow> vec3" where
  "Vector3 a b c = \<lparr>vec_x = a, vec_y = b, vec_z = c\<rparr>"

text \<open>\<open>MathUtils.lerp(x, y, t)\<close> is \<open>(1 - t) * x + t * y\<close>.\<close>

definition MathUtils_lerp :: "real \<Rightarrow> real \<Rightarrow> real \<Rightarrow> real" where
  "MathUtils_lerp a b t = (1 - t) * a + t * b"

text \<open>\<open>p.lerp(v, alpha)\<close> adds \<open>(v - p) * alpha\<close> to each component of \<open>p\<close>.\<close>

definition lerp :: "vec3 \<Rightarrow> vec3 \<Rightarrow> real \<Rightarrow> vec3" where
  "lerp p v alpha =
     \<lparr>vec_x = vec_x p + (vec_x v - vec_x p) * alpha,
      vec_y = vec_y p + (vec_y v - vec_y p) * alpha,
      vec_z = vec_z p + (vec_z v - vec_z p) * alpha\<rparr>"

text \<open>
  \<open>lerpVectors(v1, v2, alpha)\<close> stores \<open>v1 + (v2 - v1) * alpha\<close>, by component. This is
  the formula in exact arithmetic.
\<close>

definition lerpVectors_exact :: "vec3 \<Rightarrow> vec3 \<Rightarrow> real \<Rightarrow> vec3" where
  "lerpVectors_exact v1 v2 alpha =
     \<lparr>vec_x = vec_x v1 + (vec_x v2 - vec_x v1) * alpha,
      vec_y = vec_y v1 + (vec_y v2 - vec_y v1) * alpha,
      vec_z = vec_z v1 + (vec_z v2 - vec_z v1) * alpha\<rparr>"

subsection \<open>Rounding to a double\<close>

text \<open>
  The nearest integer, the even one on a tie.
\<close>

definition round_even :: "real \<Rightarrow> int" where
  "round_even x =
     (let f = \<lfloor>x\<rfloor>; d = x - of_int f
      in if d < 1 / 2 then f else if 1 / 2 < d then f + 1
         else if even f then f else f + 1)"

text \<open>
  \<open>binade n lo a\<close> is the largest \<open>e\<close> from \<open>lo\<close> to \<open>lo + n\<close> with \<open>2^e \<le> a\<close>, and
  \<open>lo\<close> when there is none.
\<close>

fun binade :: "nat \<Rightarrow> int \<Rightarrow> real \<Rightarrow> int" where
  "binade 0 lo a = lo"
| "binade (Suc n) lo a =
     (if 2 powi (lo + int (Suc n)) \<le> a then lo + int (Suc n) else binade n lo a)"

text \<open>
  IEEE binary64, round to nearest even: a number in the binade \<open>2^e\<close> (\<open>e\<close> from -1022
  to 1023) is rounded to a multiple of \<open>2^(e - 52)\<close>, and a number below \<open>2^(-1022)\<close> to a
  multiple of \<open>2^(-1074)\<close>. Overflow to infinity is not modelled.
\<close>

definition roundDouble :: "real \<Rightarrow> real" where
  "roundDouble x =
     (let p = binade 2045 (- 1022) \<bar>x\<bar> - 52
      in of_int (round_even (x / 2 powi p)) * 2 powi p)"

text \<open>
  \<open>lerpVectors\<close> as three.js evaluates it on doubles: a subtraction, a multiplication and
  an addition per component, each rounded.
\<close>

definition lerp_double :: "real \<Rightarrow> real \<Rightarrow> real \<Rightarrow> real" where
  "lerp_double a b alpha = roundDouble (a + roundDouble (roundDouble (b - a) * alpha))"

definition lerpVectors_double :: "vec3 \<Rightarrow> vec3 \<Rightarrow> real \<Rightarrow> vec3" where
  "lerpVectors_double v1 v2 alpha =
     \<lparr>vec_x = lerp_double (vec_x v1) (vec_x v2) alpha,
      vec_y = lerp_double (vec_y v1) (vec_y v2) alpha,
      vec_z = lerp_double (vec_z v1) (vec_z v2) alpha\<rparr>"

subsection \<open>The constants of \<open>shipStats\<close>\<close>

text \<open>
  \<open>shipStats\<close> holds two variables (\<open>speed\<close>, \<open>rotationSpeed\<close>) and seven numbers that no
  statement of the program assigns to; the seven are constants here.
\<close>

definition maxSpeed :: real where "maxSpeed = 2"
definition acceleration :: real where "acceleration = 2 / 100"
definition deceleration :: real where "deceleration = 1 / 100"
definition maxRotationSpeed :: real where "maxRotationSpeed = 2 / 100"
definition rotationAcceleration :: real where "rotationAcceleration = 5 / 10000"
definition rotationDeceleration :: real where "rotationDeceleration = 5 / 10000"
definition rotationDamping :: real where "rotationDamping = 95 / 100"

subsection \<open>State, inputs and collaborators\<close>

record keys =
  forward :: bool
  backward :: bool
  left :: bool
  right :: bool

record camera =
  position :: vec3
  lookingAt :: vec3

record controls =
  enabled :: bool
  target :: vec3

text \<open>
  \<open>ship\<close> is \<open>None\<close> while the JavaScript variable is still undefined (the model has not
  loaded) and otherwise holds \<open>ship.rotation.z\<close>, the only property of the loaded model that
  the update touches. The five \<open>window.*\<close> variables are \<open>None\<close> while undefined.
  \<open>lookingAt\<close> stands for the camera orientation: the point handed to the last
  \<open>camera.lookAt\<close>. \<open>speedVal\<close> and \<open>headingVal\<close> are the \<open>innerText\<close> of the two readout
  elements, \<open>None\<close> when \<open>getElementById\<close> finds no such element.
\<close>

record world =
  ship :: "real option"
  speed :: real
  rotationSpeed :: real
  shipGroup_position :: vec3
  shipGroup_rotation_y :: real
  camera :: camera
  controls :: controls
  wasFollowMode :: "bool option"
  isTransitioning :: "bool option"
  transitionStartTime :: "real option"
  transitionStartPos :: "vec3 option"
  transitionTargetPos :: "vec3 option"
  water_time :: real
  speedVal :: "string option"
  headingVal :: "string option"

text \<open>
  \<open>cameraToggle\<close> is \<open>None\<close> when the checkbox element does not exist and otherwise its
  \<open>checked\<close> property. \<open>now_switch\<close> and \<open>now\<close> are the two readings of
  \<open>performance.now()\<close> a frame can make (when it starts a transition, and when it advances
  one). \<open>matrixWorld\<close> is \<open>shipGroup.matrixWorld\<close> as a map on points.
\<close>

record env =
  keys :: keys
  cameraToggle :: "bool option"
  now_switch :: real
  now :: real
  matrixWorld :: "vec3 \<Rightarrow> vec3"

text \<open>
  \<open>translateZ p yaw d\<close> is the position of an object at \<open>p\<close> with \<open>rotation.y = yaw\<close> after
  \<open>translateZ(d)\<close>. \<open>OrbitControls_update\<close> is \<open>OrbitControls.update\<close>. \<open>numberToString\<close> is
  the conversion \<open>toFixed\<close> falls back to from \<open>1e21\<close> on. \<open>lerpVectors v1 v2 alpha\<close> is
  the vector \<open>Vector3.lerpVectors\<close> stores.
\<close>

record engine =
  translateZ :: "vec3 \<Rightarrow> real \<Rightarrow> real \<Rightarrow> vec3"
  lerpVectors :: "vec3 \<Rightarrow> vec3 \<Rightarrow> real \<Rightarrow> vec3"
  OrbitControls_update :: "controls \<Rightarrow> camera \<Rightarrow> controls \<times> camera"
  numberToString :: "real \<Rightarrow> string"

subsection \<open>\<open>Number.prototype.toFixed\<close> and \<open>%\<close>\<close>

definition digit :: "nat \<Rightarrow> char" where
  "digit d =
     (if d = 0 then CHR ''0'' else if d = 1 then CHR ''1'' else if d = 2 then CHR ''2''
      else if d = 3 then CHR ''3'' else if d = 4 then CHR ''4'' else if d = 5 then CHR ''5''
      else if d = 6 then CHR ''6'' else if d = 7 then CHR ''7'' else if d = 8 then CHR ''8''
      else CHR ''9'')"

fun decimal :: "nat \<Rightarrow> string" where
  "decimal n = (if n < 10 then [digit n] else decimal (n div 10) @ [digit (n mod 10)])"

declare decimal.simps [simp del]

text \<open>
  \<open>x.toFixed(f)\<close> as ECMAScript defines it for a finite \<open>x\<close>: a sign for a negative
  \<open>x\<close>; from \<open>1e21\<close> on the general number-to-string conversion; below it the integer \<open>n\<close>
  nearest to \<open>x * 10^f\<close> (the larger one on a tie), written in decimal, padded on the left
  with zeros to \<open>f + 1\<close> digits, with a point before the last \<open>f\<close> digits.
\<close>

definition toFixed :: "(real \<Rightarrow> string) \<Rightarrow> real \<Rightarrow> nat \<Rightarrow> string" where
  "toFixed toStr x f =
     (let s = (if x < 0 then ''-'' else '''');
          a = (if x < 0 then - x else x)
      in if a \<ge> 10 ^ 21 then s @ toStr a
         else
           let n = nat \<lfloor>a * 10 ^ f + 1 / 2\<rfloor>;
               m = decimal n
           in if f \<noteq> 0 then
                let k = length m;
                    m' = (if k \<le> f then replicate (f + 1 - k) (CHR ''0'') @ m else m);
                    k' = (if k \<le> f then f + 1 else k)
                in s @ take (k' - f) m' @ ''.'' @ drop (k' - f) m'
              else s @ m)"

text \<open>JavaScript's \<open>a % b\<close>: the remainder of the division truncated toward zero.\<close>

definition js_rem :: "real \<Rightarrow> real \<Rightarrow> real" where
  "js_rem a b =
     a - b * of_int (if a / b \<ge> 0 then \<lfloor>a / b\<rfloor> else \<lceil>a / b\<rceil>)"

subsection \<open>Vessel kinematics (lines 295 to 348)\<close>

text \<open>Lines 296 to 307: thrust from the forward or backward flag, else drag and the stop.\<close>

definition longitudinal :: "keys \<Rightarrow> real \<Rightarrow> real" where
  "longitudinal k v =
     (if forward k then v + acceleration
      else if backward k then v - acceleration
      else
        let v1 = (if v > 0 then v - deceleration else v);
            v2 = (if v1 < 0 then v1 + deceleration else v1)
        in if \<bar>v2\<bar> < deceleration then 0 else v2)"

text \<open>Line 310.\<close>

definition clampSpeed :: "real \<Rightarrow> real" where
  "clampSpeed v = max (min v maxSpeed) (- maxSpeed / 2)"

text \<open>Lines 317 to 319, as functions of the speed already clamped.\<close>

definition speedFactor :: "real \<Rightarrow> real" where
  "speedFactor v = \<bar>v\<bar> / maxSpeed"

definition turnInfluence :: "real \<Rightarrow> real" where
  "turnInfluence v = max (speedFactor v) (1 / 10)"

definition direction :: "real \<Rightarrow> real" where
  "direction v = (if v \<ge> 0 then 1 else - 1)"

text \<open>Lines 321 to 334: \<open>v\<close> is the clamped speed, \<open>r\<close> the rotation speed before.\<close>

definition turning :: "keys \<Rightarrow> real \<Rightarrow> real \<Rightarrow> real" where
  "turning k v r =
     (if left k then r + rotationAcceleration * turnInfluence v * direction v
      else if right k then r - rotationAcceleration * turnInfluence v * direction v
      else
        let r1 = (if r > 0 then r - rotationDeceleration else r);
            r2 = (if r1 < 0 then r1 + rotationDeceleration else r1);
            r3 = r2 * rotationDamping
        in if \<bar>r3\<bar> < 1 / 10000 then 0 else r3)"

text \<open>Line 337.\<close>

definition clampRotation :: "real \<Rightarrow> real" where
  "clampRotation r = max (min r maxRotationSpeed) (- maxRotationSpeed)"

text \<open>
  Lines 296 to 348 on a loaded ship whose roll is \<open>roll\<close>: the new speed and rotation
  speed, the rotation and the translation of \<open>shipGroup\<close>, and the roll eased toward ten
  times the rotation speed.
\<close>

definition kinematics :: "engine \<Rightarrow> keys \<Rightarrow> real \<Rightarrow> world \<Rightarrow> world" where
  "kinematics E k roll s =
     (let v = clampSpeed (longitudinal k (speed s));
          r = clampRotation (turning k v (rotationSpeed s));
          yaw = shipGroup_rotation_y s + r;
          p = translateZ E (shipGroup_position s) yaw (- v);
          targetRoll = r * 10
      in s\<lparr>speed := v, rotationSpeed := r, shipGroup_rotation_y := yaw,
            shipGroup_position := p,
            ship := Some (MathUtils_lerp roll targetRoll (5 / 100))\<rparr>)"

subsection \<open>Camera controller (lines 351 to 411)\<close>

text \<open>Line 352: \<open>cameraToggle && cameraToggle.checked\<close>, as a truth value.\<close>

definition isFollowMode :: "env \<Rightarrow> bool" where
  "isFollowMode e = (case cameraToggle e of None \<Rightarrow> False | Some c \<Rightarrow> c)"

text \<open>Lines 355 to 359: each \<open>window\<close> variable still undefined gets its first value.\<close>

definition initWindow :: "world \<Rightarrow> world" where
  "initWindow s =
     s\<lparr>wasFollowMode := Some (case wasFollowMode s of None \<Rightarrow> True | Some b \<Rightarrow> b),
       isTransitioning := Some (case isTransitioning s of None \<Rightarrow> False | Some b \<Rightarrow> b),
       transitionStartTime := Some (case transitionStartTime s of None \<Rightarrow> 0 | Some t \<Rightarrow> t),
       transitionStartPos :=
         Some (case transitionStartPos s of None \<Rightarrow> Vector3 0 0 0 | Some p \<Rightarrow> p),
       transitionTargetPos :=
         Some (case transitionTargetPos s of None \<Rightarrow> Vector3 0 0 0 | Some p \<Rightarrow> p)\<rparr>"

text \<open>Lines 362 to 375: the branch taken in follow mode.\<close>

definition followCamera :: "env \<Rightarrow> world \<Rightarrow> world" where
  "followCamera e s =
     s\<lparr>isTransitioning := Some False,
       wasFollowMode := Some True,
       controls := (controls s)\<lparr>enabled := False\<rparr>,
       camera := \<lparr>position = lerp (position (camera s)) (matrixWorld e (Vector3 0 30 80))
                                (5 / 100),
                  lookingAt = shipGroup_position s\<rparr>\<rparr>"

text \<open>Lines 378 to 389: the first frame out of follow mode captures the transition.\<close>

definition startTransition :: "env \<Rightarrow> world \<Rightarrow> world" where
  "startTransition e s =
     (if wasFollowMode s = Some True then
        s\<lparr>wasFollowMode := Some False,
          isTransitioning := Some True,
          transitionStartTime := Some (now_switch e),
          transitionStartPos := Some (position (camera s)),
          transitionTargetPos := Some (matrixWorld e (Vector3 0 60 150))\<rparr>
      else s)"

text \<open>Lines 392 to 405: one frame of a running transition that began at \<open>t0\<close>.\<close>

definition progress :: "env \<Rightarrow> real \<Rightarrow> real" where
  "progress e t0 = min ((now e - t0) / 1500) 1"

definition ease :: "real \<Rightarrow> real" where
  "ease p = 1 - (1 - p) ^ 3"

definition transitionStep ::
  "engine \<Rightarrow> env \<Rightarrow> real \<Rightarrow> vec3 \<Rightarrow> vec3 \<Rightarrow> world \<Rightarrow> world" where
  "transitionStep E e t0 startPos targetPos s =
     (let p = progress e t0;
          s1 = s\<lparr>camera := \<lparr>position = lerpVectors E startPos targetPos (ease p),
                            lookingAt = shipGroup_position s\<rparr>\<rparr>
      in if p \<ge> 1 then
           s1\<lparr>isTransitioning := Some False,
              controls := (controls s1)\<lparr>target := shipGroup_position s1\<rparr>\<rparr>
         else s1)"

text \<open>Lines 407 to 409: free roam.\<close>

definition freeCamera :: "engine \<Rightarrow> world \<Rightarrow> world" where
  "freeCamera E s =
     (let c = (controls s)\<lparr>enabled := True\<rparr>;
          (c', cam') = OrbitControls_update E c (camera s)
      in s\<lparr>controls := c', camera := cam'\<rparr>)"

text \<open>
  Lines 351 to 411. After \<open>initWindow\<close> the five variables are defined; the \<open>case\<close>
  expressions below read them, and their \<open>None\<close> branches are never taken.
\<close>

definition cameraController :: "engine \<Rightarrow> env \<Rightarrow> world \<Rightarrow> world" where
  "cameraController E e s0 =
     (let s = initWindow s0
      in if isFollowMode e then followCamera e s
         else
           let s1 = startTransition e s
           in if isTransitioning s1 = Some True then
                transitionStep E e
                  (case transitionStartTime s1 of None \<Rightarrow> 0 | Some t \<Rightarrow> t)
                  (case transitionStartPos s1 of None \<Rightarrow> Vector3 0 0 0 | Some p \<Rightarrow> p)
                  (case transitionTargetPos s1 of None \<Rightarrow> Vector3 0 0 0 | Some p \<Rightarrow> p)
                  s1
              else freeCamera E s1)"

subsection \<open>Readouts (lines 416 to 431)\<close>

definition currentSpeed :: "engine \<Rightarrow> real \<Rightarrow> string" where
  "currentSpeed E v = toFixed (numberToString E) (\<bar>v\<bar> * 100) 1"

definition currentHeading :: "engine \<Rightarrow> real \<Rightarrow> string" where
  "currentHeading E yaw = toFixed (numberToString E) (js_rem \<bar>yaw * (180 / pi)\<bar> 360) 0"

text \<open>An element that exists gets the new text when its text differs from it.\<close>

definition setText :: "string option \<Rightarrow> string \<Rightarrow> string option" where
  "setText el txt =
     (case el of None \<Rightarrow> None | Some old \<Rightarrow> if old \<noteq> txt then Some txt else Some old)"

definition readouts :: "engine \<Rightarrow> world \<Rightarrow> world" where
  "readouts E s =
     s\<lparr>speedVal := setText (speedVal s) (currentSpeed E (speed s)),
       headingVal := setText (headingVal s) (currentHeading E (shipGroup_rotation_y s))\<rparr>"

subsection \<open>\<open>updatePhysics\<close> and the frames of a session\<close>

definition updatePhysics :: "engine \<Rightarrow> env \<Rightarrow> world \<Rightarrow> world" where
  "updatePhysics E e s =
     (case ship s of
        None \<Rightarrow> s
      | Some roll \<Rightarrow>
          let s1 = kinematics E (keys e) roll s;
              s2 = cameraController E e s1;
              s3 = s2\<lparr>water_time := water_time s2 + 1 / 60\<rparr>
          in readouts E s3)"

text \<open>
  What happens between page load and teardown: frames, and at most once the loader's
  callback, which defines \<open>ship\<close> (with the roll the model file gives it).
\<close>

datatype event = Frame env | Loaded real

fun run :: "engine \<Rightarrow> world \<Rightarrow> event list \<Rightarrow> world" where
  "run E s [] = s"
| "run E s (Frame e # es) = run E (updatePhysics E e s) es"
| "run E s (Loaded roll # es) = run E (s\<lparr>ship := Some roll\<rparr>) es"

text \<open>
  The globals as the top level of main.js leaves them. The page (not part of the sources)
  decides whether the two readout elements exist and what they show at first. No frame
  reads the orientation of the camera, so \<open>lookingAt\<close> starts at an arbitrary point.
\<close>

definition initial :: "string option \<Rightarrow> string option \<Rightarrow> world" where
  "initial sv hv =
     \<lparr>ship = None, speed = 0, rotationSpeed = 0,
      shipGroup_position = Vector3 0 0 0, shipGroup_rotation_y = 0,
      camera = \<lparr>position = Vector3 30 30 100, lookingAt = Vector3 0 0 0\<rparr>,
      controls = \<lparr>enabled = True, target = Vector3 0 10 0\<rparr>,
      wasFollowMode = None, isTransitioning = None, transitionStartTime = None,
      transitionStartPos = None, transitionTargetPos = None,
      water_time = 0, speedVal = sv, headingVal = hv\<rparr>"

subsection \<open>Sample inputs\<close>

text \<open>
  Concrete values on which the theorems below are instantiated: an engine whose
  \<open>translateZ\<close> moves along the z axis (what three.js does at yaw 0) and whose orbit
  controls are at rest, the key flags, a frame at a given time with the identity as
  world matrix, and a loaded vessel with given speed and rotation speed.
\<close>

definition sample_engine :: engine where
  "sample_engine =
     \<lparr>translateZ = (\<lambda>p yaw d. p\<lparr>vec_z := vec_z p + d\<rparr>),
      lerpVectors = lerpVectors_exact,
      OrbitControls_update = (\<lambda>c cam. (c, cam)),
      numberToString = (\<lambda>x. ''1e+21'')\<rparr>"

definition held :: "bool \<Rightarrow> bool \<Rightarrow> bool \<Rightarrow> bool \<Rightarrow> keys" where
  "held f b l r = \<lparr>forward = f, backward = b, left = l, right = r\<rparr>"

definition frame_at :: "keys \<Rightarrow> bool \<Rightarrow> real \<Rightarrow> env" where
  "frame_at k follow t =
     \<lparr>keys = k, cameraToggle = Some follow, now_switch = t, now = t,
      matrixWorld = (\<lambda>p. p)\<rparr>"

definition vessel :: "real \<Rightarrow> real \<Rightarrow> world" where
  "vessel v r =
     (initial (Some ''0.0'') (Some ''0''))\<lparr>ship := Some 0, speed := v, rotationSpeed := r\<rparr>"

text \<open>
  The same engine computing \<open>lerpVectors\<close> on doubles; a loaded vessel at rest whose
  camera is at the double 20.960621913010677 on the x axis; and a frame out of follow mode
  whose world matrix is the translation by the double 0.20953793149617678 along x.
\<close>

definition double_engine :: engine where
  "double_engine = sample_engine\<lparr>lerpVectors := lerpVectors_double\<rparr>"

definition trailing :: world where
  "trailing =
     (vessel 0 0)\<lparr>camera := \<lparr>position = Vector3 (2949945282402773 / 2 ^ 47) 30 80,
                               lookingAt = Vector3 0 0 0\<rparr>\<rparr>"

definition leaving_at :: "real \<Rightarrow> env" where
  "leaving_at t =
     \<lparr>keys = held False False False False, cameraToggle = Some False, now_switch = t,
      now = t,
      matrixWorld = (\<lambda>p. p\<lparr>vec_x := vec_x p + 3774699800824665 / 2 ^ 54\<rparr>)\<rparr>"

text \<open>The three variables that make up the camera mode.\<close>

definition modeState :: "world \<Rightarrow> bool option \<times> bool option \<times> bool" where
  "modeState s = (isTransitioning s, wasFollowMode s, enabled (controls s))"

text \<open>
  The readout statement of the earlier revision of the file (src/unnamed/part\_000, line
  244): the text is assigned whenever the element exists.
\<close>

definition speedVal_part_000 :: "engine \<Rightarrow> world \<Rightarrow> string option" where
  "speedVal_part_000 E s =
     (case speedVal s of None \<Rightarrow> None | Some old \<Rightarrow> Some (currentSpeed E (speed s)))"

text \<open>
  Two situations of the camera controller: a transition that began at time \<open>t0\<close> from
  \<open>sp\<close> toward \<open>tp\<close> is under way; the transition is over with the camera at \<open>p\<close> and
  the controller in free roam.
\<close>

definition transitioning :: "real \<Rightarrow> vec3 \<Rightarrow> vec3 \<Rightarrow> world \<Rightarrow> bool" where
  "transitioning t0 sp tp s \<longleftrightarrow>
     ship s \<noteq> None \<and> wasFollowMode s = Some False \<and> isTransitioning s = Some True \<and>
     transitionStartTime s = Some t0 \<and> transitionStartPos s = Some sp \<and>
     transitionTargetPos s = Some tp"

definition arrived :: "vec3 \<Rightarrow> world \<Rightarrow> bool" where
  "arrived p s \<longleftrightarrow>
     position (camera s) = p \<and> isTransitioning s = Some False \<and>
     wasFollowMode s = Some False \<and> target (controls s) = shipGroup_position s"

section \<open>Properties\<close>

subsection \<open>What the update leaves alone, and what it computes\<close>

lemma speed_cameraController [simp]: "speed (cameraController E e s) = speed s"
  by (simp add: cameraController_def initWindow_def followCamera_def startTransition_def
      transitionStep_def freeCamera_def Let_def split: prod.splits)

lemma rotationSpeed_cameraController [simp]:
  "rotationSpeed (cameraController E e s) = rotationSpeed s"
  by (simp add: cameraController_def initWindow_def followCamera_def startTransition_def
      transitionStep_def freeCamera_def Let_def split: prod.splits)

lemma ship_cameraController [simp]: "ship (cameraController E e s) = ship s"
  by (simp add: cameraController_def initWindow_def followCamera_def startTransition_def
      transitionStep_def freeCamera_def Let_def split: prod.splits)

lemma speed_updatePhysics:
  "ship s \<noteq> None \<Longrightarrow>
   speed (updatePhysics E e s) = clampSpeed (longitudinal (keys e) (speed s))"
  by (auto simp: updatePhysics_def readouts_def kinematics_def Let_def)

lemma rotationSpeed_updatePhysics:
  "ship s \<noteq> None \<Longrightarrow>
   rotationSpeed (updatePhysics E e s) =
     clampRotation (turning (keys e) (clampSpeed (longitudinal (keys e) (speed s)))
       (rotationSpeed s))"
  by (auto simp: updatePhysics_def readouts_def kinematics_def Let_def)

lemma ship_updatePhysics: "ship s \<noteq> None \<Longrightarrow> ship (updatePhysics E e s) \<noteq> None"
  by (auto simp: updatePhysics_def readouts_def kinematics_def Let_def)

lemma updatePhysics_not_loaded: "ship s = None \<Longrightarrow> updatePhysics E e s = s"
  by (simp add: updatePhysics_def)

lemma run_snoc: "run E s (evs @ [Frame e]) = updatePhysics E e (run E s evs)"
  by (induction E s evs rule: run.induct) simp_all

lemma ship_run_frames: "ship s \<noteq> None \<Longrightarrow> ship (run E s (map Frame es)) \<noteq> None"
proof (induction es arbitrary: s)
  case Nil
  then show ?case by simp
next
  case (Cons e es)
  have "ship (updatePhysics E e s) \<noteq> None"
    using Cons.prems by (rule ship_updatePhysics)
  then have "ship (run E (updatePhysics E e s) (map Frame es)) \<noteq> None"
    by (rule Cons.IH)
  then show ?case by simp
qed

subsection \<open>The clamps\<close>

lemma clampSpeed_bounds: "- maxSpeed / 2 \<le> clampSpeed v \<and> clampSpeed v \<le> maxSpeed"
  by (simp add: clampSpeed_def maxSpeed_def)

lemma clampRotation_bounds:
  "- maxRotationSpeed \<le> clampRotation r \<and> clampRotation r \<le> maxRotationSpeed"
  by (simp add: clampRotation_def maxRotationSpeed_def)

subsection \<open>Drag\<close>

lemma drag_abs:
  "\<not> forward k \<Longrightarrow> \<not> backward k \<Longrightarrow> \<bar>clampSpeed (longitudinal k v)\<bar> \<le> \<bar>v\<bar>"
  by (auto simp: clampSpeed_def longitudinal_def maxSpeed_def deceleration_def Let_def
      min_def max_def abs_if)

lemma drag_sign:
  "\<not> forward k \<Longrightarrow> \<not> backward k \<Longrightarrow>
   (0 < v \<longrightarrow> 0 \<le> clampSpeed (longitudinal k v)) \<and>
   (v < 0 \<longrightarrow> clampSpeed (longitudinal k v) \<le> 0)"
  by (auto simp: clampSpeed_def longitudinal_def maxSpeed_def deceleration_def Let_def
      min_def max_def abs_if)

lemma drag_progress:
  "\<not> forward k \<Longrightarrow> \<not> backward k \<Longrightarrow> \<bar>v\<bar> \<le> (1 + real n) * deceleration \<Longrightarrow>
   \<bar>clampSpeed (longitudinal k v)\<bar> \<le> real n * deceleration"
  by (auto simp: clampSpeed_def longitudinal_def maxSpeed_def deceleration_def Let_def
      min_def max_def abs_if split: if_splits)

lemma drag_run_zero:
  "ship s \<noteq> None \<Longrightarrow> \<forall>e\<in>set es. \<not> forward (keys e) \<and> \<not> backward (keys e) \<Longrightarrow>
   \<bar>speed s\<bar> \<le> real (length es) * deceleration \<Longrightarrow>
   speed (run E s (map Frame es)) = 0"
proof (induction es arbitrary: s)
  case Nil
  then show ?case by simp
next
  case (Cons e es)
  from Cons.prems have k: "\<not> forward (keys e)" "\<not> backward (keys e)" by simp_all
  from Cons.prems have "\<bar>speed s\<bar> \<le> (1 + real (length es)) * deceleration" by simp
  with k have "\<bar>clampSpeed (longitudinal (keys e) (speed s))\<bar> \<le> real (length es) * deceleration"
    by (rule drag_progress)
  with Cons.prems have "\<bar>speed (updatePhysics E e s)\<bar> \<le> real (length es) * deceleration"
    by (simp add: speed_updatePhysics)
  moreover from Cons.prems have "ship (updatePhysics E e s) \<noteq> None"
    by (simp add: ship_updatePhysics)
  moreover from Cons.prems have "\<forall>e\<in>set es. \<not> forward (keys e) \<and> \<not> backward (keys e)"
    by simp
  ultimately have "speed (run E (updatePhysics E e s) (map Frame es)) = 0"
    by (rule Cons.IH[rotated 2])
  then show ?case by simp
qed

text \<open>
  Claim C1. Take a loaded vessel with a nonzero speed and any run of frames in none of
  which the forward or the backward flag is set. From each frame to the next the
  magnitude of the speed does not grow; a positive speed is never followed by a negative
  one, nor a negative by a positive one; and from frame number
  \<open>\<lceil>\<bar>speed\<bar> / deceleration\<rceil>\<close> on the speed is exactly 0.
\<close>

theorem drag_to_rest:
  assumes loaded: "ship s \<noteq> None"
    and moving: "speed s \<noteq> 0"
    and idle: "\<forall>e\<in>set es. \<not> forward (keys e) \<and> \<not> backward (keys e)"
  shows "(\<forall>i<length es.
            \<bar>speed (run E s (map Frame (take (Suc i) es)))\<bar>
              \<le> \<bar>speed (run E s (map Frame (take i es)))\<bar>) \<and>
         (\<forall>i<length es.
            (0 < speed (run E s (map Frame (take i es)))
               \<longrightarrow> 0 \<le> speed (run E s (map Frame (take (Suc i) es)))) \<and>
            (speed (run E s (map Frame (take i es))) < 0
               \<longrightarrow> speed (run E s (map Frame (take (Suc i) es))) \<le> 0)) \<and>
         (\<forall>i\<le>length es. nat \<lceil>\<bar>speed s\<bar> / deceleration\<rceil> \<le> i
            \<longrightarrow> speed (run E s (map Frame (take i es))) = 0)"
proof (intro conjI allI impI)
  fix i assume i: "i < length es"
  let ?s = "run E s (map Frame (take i es))"
  have step: "run E s (map Frame (take (Suc i) es)) = updatePhysics E (es ! i) ?s"
    using i by (simp add: take_Suc_conv_app_nth run_snoc)
  have l: "ship ?s \<noteq> None" using loaded by (rule ship_run_frames)
  have k: "\<not> forward (keys (es ! i))" "\<not> backward (keys (es ! i))"
    using idle i by simp_all
  show "\<bar>speed (run E s (map Frame (take (Suc i) es)))\<bar> \<le> \<bar>speed ?s\<bar>"
    using drag_abs[OF k] l by (simp add: step speed_updatePhysics)
  show "0 \<le> speed (run E s (map Frame (take (Suc i) es)))" if "0 < speed ?s"
    using drag_sign[OF k, of "speed ?s"] l that by (simp add: step speed_updatePhysics)
  show "speed (run E s (map Frame (take (Suc i) es))) \<le> 0" if "speed ?s < 0"
    using drag_sign[OF k, of "speed ?s"] l that by (simp add: step speed_updatePhysics)
next
  fix i assume i: "i \<le> length es" and n: "nat \<lceil>\<bar>speed s\<bar> / deceleration\<rceil> \<le> i"
  have "\<bar>speed s\<bar> / deceleration \<le> real i"
    using n by linarith
  then have "\<bar>speed s\<bar> \<le> real (length (take i es)) * deceleration"
    using i by (simp add: deceleration_def min_absorb2)
  moreover have "\<forall>e\<in>set (take i es). \<not> forward (keys e) \<and> \<not> backward (keys e)"
    using idle by (meson in_set_takeD)
  ultimately show "speed (run E s (map Frame (take i es))) = 0"
    using loaded by (intro drag_run_zero)
qed

theorem drag_to_rest_witness:
  "speed (vessel (3 / 200) 0) \<noteq> 0 \<and>
   speed (run sample_engine (vessel (3 / 200) 0)
     (map Frame (take 2 [frame_at (held False False False False) True 0,
                         frame_at (held False False False False) True 16]))) = 0"
proof -
  let ?es = "[frame_at (held False False False False) True 0,
              frame_at (held False False False False) True 16]"
  have l: "ship (vessel (3 / 200) 0) \<noteq> None" by (simp add: vessel_def)
  have m: "speed (vessel (3 / 200) 0) \<noteq> 0" by (simp add: vessel_def)
  have i: "\<forall>e\<in>set ?es. \<not> forward (keys e) \<and> \<not> backward (keys e)"
    by (simp add: frame_at_def held_def)
  have n: "nat \<lceil>\<bar>speed (vessel (3 / 200) 0)\<bar> / deceleration\<rceil> \<le> 2"
    by (simp add: vessel_def deceleration_def)
  have len: "2 \<le> length ?es" by simp
  have "\<forall>i\<le>length ?es. nat \<lceil>\<bar>speed (vessel (3 / 200) 0)\<bar> / deceleration\<rceil> \<le> i
          \<longrightarrow> speed (run sample_engine (vessel (3 / 200) 0) (map Frame (take i ?es))) = 0"
    using drag_to_rest[OF l m i, of sample_engine] by blast
  then have "speed (run sample_engine (vessel (3 / 200) 0) (map Frame (take 2 ?es))) = 0"
    using len n by blast
  with m show ?thesis by blast
qed

subsection \<open>Turning\<close>

lemma turnInfluence_floor: "1 / 10 \<le> turnInfluence v"
  by (simp add: turnInfluence_def)

text \<open>
  Claim C2, as the code has it. On a loaded vessel the increment of the rotation speed is
  \<open>rotationAcceleration * turnInfluence\<close> times a factor that is \<open>+1\<close> when the speed
  (already updated and clamped in the same frame) is \<open>\<ge> 0\<close>, zero included, and \<open>-1\<close>
  when it is negative: added for the left flag, subtracted for the right flag. The factor
  is never 0.
\<close>

theorem turn_direction:
  assumes "ship s \<noteq> None"
  shows "direction (speed (updatePhysics E e s))
           = (if 0 \<le> speed (updatePhysics E e s) then 1 else - 1) \<and>
         (left (keys e) \<longrightarrow>
            rotationSpeed (updatePhysics E e s)
              = clampRotation (rotationSpeed s
                  + rotationAcceleration * turnInfluence (speed (updatePhysics E e s))
                      * (if 0 \<le> speed (updatePhysics E e s) then 1 else - 1))) \<and>
         (\<not> left (keys e) \<and> right (keys e) \<longrightarrow>
            rotationSpeed (updatePhysics E e s)
              = clampRotation (rotationSpeed s
                  - rotationAcceleration * turnInfluence (speed (updatePhysics E e s))
                      * (if 0 \<le> speed (updatePhysics E e s) then 1 else - 1)))"
  using assms
  by (simp add: speed_updatePhysics rotationSpeed_updatePhysics turning_def direction_def)

theorem turn_direction_witness:
  "ship (vessel (- 1 / 2) 0) \<noteq> None \<and>
   direction (speed (updatePhysics sample_engine
       (frame_at (held False False True False) True 0) (vessel (- 1 / 2) 0))) = - 1 \<and>
   rotationSpeed (updatePhysics sample_engine
       (frame_at (held False False True False) True 0) (vessel (- 1 / 2) 0)) < 0"
proof -
  let ?e = "frame_at (held False False True False) True 0"
  let ?s = "vessel (- 1 / 2) 0"
  have l: "ship ?s \<noteq> None" by (simp add: vessel_def)
  have v: "speed (updatePhysics sample_engine ?e ?s) = - 49 / 100"
    using l by (simp add: speed_updatePhysics vessel_def frame_at_def held_def
        longitudinal_def clampSpeed_def maxSpeed_def deceleration_def)
  have k: "left (keys ?e)" by (simp add: frame_at_def held_def)
  have r: "rotationSpeed ?s = 0" by (simp add: vessel_def)
  from turn_direction[OF l, of sample_engine ?e] v k r l show ?thesis
    by (simp add: clampRotation_def turnInfluence_def speedFactor_def maxSpeed_def
        rotationAcceleration_def maxRotationSpeed_def)
qed

text \<open>
  The claim as written gives the factor \<open>sign(speed)\<close>, hence 0 at rest. At rest with
  the left flag held the rotation speed grows by the full floor increment.
\<close>

theorem turn_direction_at_rest_counterexample:
  "speed (updatePhysics sample_engine (frame_at (held False False True False) True 0)
      (vessel 0 0)) = 0 \<and>
   direction (speed (updatePhysics sample_engine
      (frame_at (held False False True False) True 0) (vessel 0 0))) = 1 \<and>
   direction (speed (updatePhysics sample_engine
      (frame_at (held False False True False) True 0) (vessel 0 0)))
     \<noteq> sgn (speed (updatePhysics sample_engine
          (frame_at (held False False True False) True 0) (vessel 0 0))) \<and>
   rotationSpeed (vessel 0 0) = 0 \<and>
   rotationSpeed (updatePhysics sample_engine (frame_at (held False False True False) True 0)
      (vessel 0 0)) = 1 / 20000"
  by (simp add: speed_updatePhysics rotationSpeed_updatePhysics vessel_def frame_at_def
      held_def longitudinal_def clampSpeed_def turning_def clampRotation_def
      turnInfluence_def speedFactor_def direction_def maxSpeed_def deceleration_def
      maxRotationSpeed_def rotationAcceleration_def)

text \<open>
  Claim C5, as the code has it. On a loaded vessel at rest with a rotation speed below
  \<open>maxRotationSpeed\<close>, a frame with the left flag set strictly increases the rotation
  speed, provided the frame does not thrust backward (the forward flag is set or the
  backward flag is not); \<open>turnInfluence\<close> is at least \<open>0.1\<close>.
\<close>

theorem turn_floor:
  assumes "ship s \<noteq> None" and "speed s = 0" and "rotationSpeed s < maxRotationSpeed"
    and "left (keys e)" and "forward (keys e) \<or> \<not> backward (keys e)"
  shows "rotationSpeed s < rotationSpeed (updatePhysics E e s) \<and>
         1 / 10 \<le> turnInfluence (speed (updatePhysics E e s))"
proof -
  have v: "0 \<le> clampSpeed (longitudinal (keys e) (speed s))"
    using assms(2,5)
    by (auto simp: longitudinal_def clampSpeed_def maxSpeed_def acceleration_def
        deceleration_def)
  have "0 < rotationAcceleration * turnInfluence (clampSpeed (longitudinal (keys e) (speed s)))"
    using turnInfluence_floor[of "clampSpeed (longitudinal (keys e) (speed s))"]
    by (simp add: rotationAcceleration_def)
  then have "rotationSpeed s
      < clampRotation (turning (keys e) (clampSpeed (longitudinal (keys e) (speed s)))
          (rotationSpeed s))"
    using assms(3,4) v
    by (simp add: turning_def direction_def clampRotation_def maxRotationSpeed_def
        min_def max_def)
  then show ?thesis
    using assms(1) turnInfluence_floor by (simp add: rotationSpeed_updatePhysics)
qed

theorem turn_floor_witness:
  "ship (vessel 0 0) \<noteq> None \<and> speed (vessel 0 0) = 0 \<and>
   rotationSpeed (vessel 0 0) < maxRotationSpeed \<and>
   left (keys (frame_at (held False False True False) True 0)) \<and>
   (forward (keys (frame_at (held False False True False) True 0)) \<or>
    \<not> backward (keys (frame_at (held False False True False) True 0))) \<and>
   rotationSpeed (vessel 0 0)
     < rotationSpeed (updatePhysics sample_engine
         (frame_at (held False False True False) True 0) (vessel 0 0))"
proof -
  let ?e = "frame_at (held False False True False) True 0"
  have a: "ship (vessel 0 0) \<noteq> None" by (simp add: vessel_def)
  have b: "speed (vessel 0 0) = 0" by (simp add: vessel_def)
  have c: "rotationSpeed (vessel 0 0) < maxRotationSpeed"
    by (simp add: vessel_def maxRotationSpeed_def)
  have d: "left (keys ?e)" by (simp add: frame_at_def held_def)
  have f: "forward (keys ?e) \<or> \<not> backward (keys ?e)" by (simp add: frame_at_def held_def)
  from turn_floor[OF a b c d f, of sample_engine] a b c d f show ?thesis by blast
qed

text \<open>
  With the backward flag held as well, the speed is negative by the time the turn is
  computed, the factor is \<open>-1\<close>, and the left flag lowers the rotation speed.
\<close>

theorem turn_floor_backward_counterexample:
  "ship (vessel 0 0) \<noteq> None \<and> speed (vessel 0 0) = 0 \<and>
   rotationSpeed (vessel 0 0) < maxRotationSpeed \<and>
   left (keys (frame_at (held False True True False) True 0)) \<and>
   rotationSpeed (updatePhysics sample_engine (frame_at (held False True True False) True 0)
      (vessel 0 0)) < rotationSpeed (vessel 0 0)"
  by (simp add: speed_updatePhysics rotationSpeed_updatePhysics vessel_def frame_at_def
      held_def longitudinal_def clampSpeed_def turning_def clampRotation_def
      turnInfluence_def speedFactor_def direction_def maxSpeed_def acceleration_def
      maxRotationSpeed_def rotationAcceleration_def)

subsection \<open>Invariants of a session\<close>

lemma speed_run_bounds:
  "- maxSpeed / 2 \<le> speed s \<and> speed s \<le> maxSpeed \<Longrightarrow>
   - maxSpeed / 2 \<le> speed (run E s evs) \<and> speed (run E s evs) \<le> maxSpeed"
proof (induction E s evs rule: run.induct)
  case (1 E s)
  then show ?case by simp
next
  case (2 E s e es)
  have "- maxSpeed / 2 \<le> speed (updatePhysics E e s) \<and> speed (updatePhysics E e s) \<le> maxSpeed"
  proof (cases "ship s")
    case None
    then show ?thesis using "2.prems" by (simp add: updatePhysics_not_loaded)
  next
    case (Some roll)
    then show ?thesis using clampSpeed_bounds by (simp add: speed_updatePhysics)
  qed
  then show ?case using "2.IH" by simp
next
  case (3 E s roll es)
  then show ?case by simp
qed

text \<open>
  Claim C3. Starting from speed 0, after any sequence of frames (with any flags, before
  and after the model loads) the speed lies between \<open>- maxSpeed / 2\<close> and \<open>maxSpeed\<close>.
\<close>

theorem speed_clamped:
  "speed s = 0 \<Longrightarrow>
   - maxSpeed / 2 \<le> speed (run E s evs) \<and> speed (run E s evs) \<le> maxSpeed"
  by (rule speed_run_bounds) (simp add: maxSpeed_def)

theorem speed_clamped_witness:
  "speed (initial None None) = 0 \<and>
   speed (run sample_engine (initial None None)
     [Loaded 0, Frame (frame_at (held False True False False) True 0)]) = - 1 / 50 \<and>
   - maxSpeed / 2 \<le> speed (run sample_engine (initial None None)
     [Loaded 0, Frame (frame_at (held False True False False) True 0)])"
proof -
  have z: "speed (initial None None) = 0" by (simp add: initial_def)
  have v: "speed (run sample_engine (initial None None)
     [Loaded 0, Frame (frame_at (held False True False False) True 0)]) = - 1 / 50"
    by (simp add: speed_updatePhysics initial_def frame_at_def held_def longitudinal_def
        clampSpeed_def maxSpeed_def acceleration_def)
  from speed_clamped[OF z, of sample_engine
      "[Loaded 0, Frame (frame_at (held False True False False) True 0)]"] z v
  show ?thesis by blast
qed

lemma rotationSpeed_run_bounds:
  "- maxRotationSpeed \<le> rotationSpeed s \<and> rotationSpeed s \<le> maxRotationSpeed \<Longrightarrow>
   - maxRotationSpeed \<le> rotationSpeed (run E s evs) \<and>
   rotationSpeed (run E s evs) \<le> maxRotationSpeed"
proof (induction E s evs rule: run.induct)
  case (1 E s)
  then show ?case by simp
next
  case (2 E s e es)
  have "- maxRotationSpeed \<le> rotationSpeed (updatePhysics E e s) \<and>
        rotationSpeed (updatePhysics E e s) \<le> maxRotationSpeed"
  proof (cases "ship s")
    case None
    then show ?thesis using "2.prems" by (simp add: updatePhysics_not_loaded)
  next
    case (Some roll)
    then show ?thesis using clampRotation_bounds by (simp add: rotationSpeed_updatePhysics)
  qed
  then show ?case using "2.IH" by simp
next
  case (3 E s roll es)
  then show ?case by simp
qed

text \<open>
  Claim C4. Starting from rotation speed 0, after any sequence of frames the rotation
  speed lies between \<open>- maxRotationSpeed\<close> and \<open>maxRotationSpeed\<close>.
\<close>

theorem yawRate_clamped:
  "rotationSpeed s = 0 \<Longrightarrow>
   - maxRotationSpeed \<le> rotationSpeed (run E s evs) \<and>
   rotationSpeed (run E s evs) \<le> maxRotationSpeed"
  by (rule rotationSpeed_run_bounds) (simp add: maxRotationSpeed_def)

theorem yawRate_clamped_witness:
  "rotationSpeed (initial None None) = 0 \<and>
   rotationSpeed (run sample_engine (initial None None)
     [Loaded 0, Frame (frame_at (held False False False True) True 0)]) = - 1 / 20000 \<and>
   - maxRotationSpeed \<le> rotationSpeed (run sample_engine (initial None None)
     [Loaded 0, Frame (frame_at (held False False False True) True 0)])"
proof -
  have z: "rotationSpeed (initial None None) = 0" by (simp add: initial_def)
  have v: "rotationSpeed (run sample_engine (initial None None)
     [Loaded 0, Frame (frame_at (held False False False True) True 0)]) = - 1 / 20000"
    by (simp add: rotationSpeed_updatePhysics initial_def frame_at_def held_def
        longitudinal_def clampSpeed_def turning_def clampRotation_def turnInfluence_def
        speedFactor_def direction_def maxSpeed_def deceleration_def maxRotationSpeed_def
        rotationAcceleration_def)
  from yawRate_clamped[OF z, of sample_engine
      "[Loaded 0, Frame (frame_at (held False False False True) True 0)]"] z v
  show ?thesis by blast
qed

subsection \<open>Opposite flags\<close>

lemma longitudinal_forward:
  "forward k \<Longrightarrow> longitudinal (k\<lparr>backward := b\<rparr>) v = v + acceleration"
  by (simp add: longitudinal_def)

lemma turning_left:
  "left k \<Longrightarrow> turning (k\<lparr>right := b\<rparr>) v r
     = r + rotationAcceleration * turnInfluence v * direction v"
  by (simp add: turning_def)

lemma longitudinal_right_irrelevant: "longitudinal (k\<lparr>right := b\<rparr>) v = longitudinal k v"
  by (simp add: longitudinal_def)

lemma turning_backward_irrelevant: "turning (k\<lparr>backward := b\<rparr>) v r = turning k v r"
  by (simp add: turning_def)

lemma kinematics_forward:
  "forward k \<Longrightarrow> kinematics E (k\<lparr>backward := False\<rparr>) roll s = kinematics E k roll s"
  using longitudinal_forward[of k "backward k"] 
  by (simp add: kinematics_def longitudinal_forward turning_backward_irrelevant)

lemma kinematics_left:
  "left k \<Longrightarrow> kinematics E (k\<lparr>right := False\<rparr>) roll s = kinematics E k roll s"
  using turning_left[of k "right k"]
  by (simp add: kinematics_def turning_left longitudinal_right_irrelevant)

lemma cameraController_keys: "cameraController E (e\<lparr>keys := k\<rparr>) s = cameraController E e s"
  by (simp add: cameraController_def followCamera_def startTransition_def
      transitionStep_def isFollowMode_def progress_def Let_def)

text \<open>
  Claim C6. With the forward flag set the whole update is the one the same frame would
  make with the backward flag cleared, and with the left flag set the one it would make
  with the right flag cleared. On a loaded vessel with both forward and backward set the
  new speed is the clamped \<open>speed + acceleration\<close>; with both left and right set the new
  rotation speed is the clamped left-turn value.
\<close>

theorem opposite_flags:
  "(forward (keys e) \<longrightarrow>
      updatePhysics E e s = updatePhysics E (e\<lparr>keys := (keys e)\<lparr>backward := False\<rparr>\<rparr>) s) \<and>
   (left (keys e) \<longrightarrow>
      updatePhysics E e s = updatePhysics E (e\<lparr>keys := (keys e)\<lparr>right := False\<rparr>\<rparr>) s) \<and>
   (ship s \<noteq> None \<and> forward (keys e) \<and> backward (keys e) \<longrightarrow>
      speed (updatePhysics E e s) = clampSpeed (speed s + acceleration)) \<and>
   (ship s \<noteq> None \<and> left (keys e) \<and> right (keys e) \<longrightarrow>
      rotationSpeed (updatePhysics E e s)
        = clampRotation (rotationSpeed s
            + rotationAcceleration * turnInfluence (speed (updatePhysics E e s))
                * direction (speed (updatePhysics E e s))))"
proof (intro conjI impI)
  assume "forward (keys e)"
  then show "updatePhysics E e s = updatePhysics E (e\<lparr>keys := (keys e)\<lparr>backward := False\<rparr>\<rparr>) s"
    by (simp add: updatePhysics_def kinematics_forward cameraController_keys
        split: option.splits)
next
  assume "left (keys e)"
  then show "updatePhysics E e s = updatePhysics E (e\<lparr>keys := (keys e)\<lparr>right := False\<rparr>\<rparr>) s"
    by (simp add: updatePhysics_def kinematics_left cameraController_keys
        split: option.splits)
next
  assume "ship s \<noteq> None \<and> forward (keys e) \<and> backward (keys e)"
  then show "speed (updatePhysics E e s) = clampSpeed (speed s + acceleration)"
    by (simp add: speed_updatePhysics longitudinal_def)
next
  assume "ship s \<noteq> None \<and> left (keys e) \<and> right (keys e)"
  then show "rotationSpeed (updatePhysics E e s)
        = clampRotation (rotationSpeed s
            + rotationAcceleration * turnInfluence (speed (updatePhysics E e s))
                * direction (speed (updatePhysics E e s)))"
    by (simp add: speed_updatePhysics rotationSpeed_updatePhysics turning_def)
qed

theorem opposite_flags_witness:
  "ship (vessel (1 / 2) 0) \<noteq> None \<and>
   forward (keys (frame_at (held True True True True) True 0)) \<and>
   backward (keys (frame_at (held True True True True) True 0)) \<and>
   left (keys (frame_at (held True True True True) True 0)) \<and>
   right (keys (frame_at (held True True True True) True 0)) \<and>
   speed (updatePhysics sample_engine (frame_at (held True True True True) True 0)
      (vessel (1 / 2) 0)) = 13 / 25 \<and>
   rotationSpeed (updatePhysics sample_engine (frame_at (held True True True True) True 0)
      (vessel (1 / 2) 0)) = 13 / 100000"
proof -
  let ?e = "frame_at (held True True True True) True 0"
  let ?s = "vessel (1 / 2) 0"
  have l: "ship ?s \<noteq> None" by (simp add: vessel_def)
  have k: "forward (keys ?e)" "backward (keys ?e)" "left (keys ?e)" "right (keys ?e)"
    by (simp_all add: frame_at_def held_def)
  have v: "speed (updatePhysics sample_engine ?e ?s) = clampSpeed (speed ?s + acceleration)"
    using opposite_flags[of ?e sample_engine ?s] l k by blast
  have r: "rotationSpeed (updatePhysics sample_engine ?e ?s)
        = clampRotation (rotationSpeed ?s
            + rotationAcceleration * turnInfluence (speed (updatePhysics sample_engine ?e ?s))
                * direction (speed (updatePhysics sample_engine ?e ?s)))"
    using opposite_flags[of ?e sample_engine ?s] l k by blast
  have v': "speed (updatePhysics sample_engine ?e ?s) = 13 / 25"
    unfolding v by (simp add: vessel_def clampSpeed_def acceleration_def maxSpeed_def)
  have r': "rotationSpeed (updatePhysics sample_engine ?e ?s) = 13 / 100000"
    unfolding r v' 
    by (simp add: vessel_def clampRotation_def turnInfluence_def speedFactor_def
        direction_def maxSpeed_def rotationAcceleration_def maxRotationSpeed_def)
  from l k v' r' show ?thesis by blast
qed

subsection \<open>Before the model has loaded\<close>

lemma run_not_loaded: "ship s = None \<Longrightarrow> run E s (map Frame es) = s"
  by (induction es) (simp_all add: updatePhysics_not_loaded)

text \<open>
  Claim C9. While \<open>ship\<close> is undefined a frame returns the state it was given: speed,
  rotation speed, position, yaw, camera, controls, the transition variables and both
  readouts are all unchanged, for one frame and for any number of them.
\<close>

theorem not_loaded_noop:
  "ship s = None \<Longrightarrow> updatePhysics E e s = s \<and> run E s (map Frame es) = s"
  by (simp add: updatePhysics_def run_not_loaded)

theorem not_loaded_noop_witness:
  "ship (initial (Some ''0.0'') (Some ''0'')) = None \<and>
   updatePhysics sample_engine (frame_at (held True False True False) False 0)
     (initial (Some ''0.0'') (Some ''0'')) = initial (Some ''0.0'') (Some ''0'')"
proof -
  have n: "ship (initial (Some ''0.0'') (Some ''0'')) = None" by (simp add: initial_def)
  from not_loaded_noop[OF n] n show ?thesis by blast
qed

subsection \<open>Camera modes\<close>

lemma follow_frame:
  "ship s \<noteq> None \<Longrightarrow> isFollowMode e \<Longrightarrow>
   modeState (updatePhysics E e s) = (Some False, Some True, False)"
  by (auto simp: modeState_def updatePhysics_def readouts_def cameraController_def
      followCamera_def Let_def)

text \<open>
  Claim C8. On a loaded vessel, whatever frames were spent away from follow mode (none,
  or part of a transition, or more), the first frame back in follow mode leaves the
  transitioning flag false, the was-in-follow-mode latch true and the manual controls
  disabled: the mode state of a session that never left follow mode.
\<close>

theorem back_to_follow:
  assumes "ship s \<noteq> None" and "isFollowMode e"
  shows "modeState (run E s (map Frame (away @ [e]))) = (Some False, Some True, False) \<and>
         modeState (run E s (map Frame (away @ [e]))) = modeState (run E s [Frame e])"
proof -
  have "ship (run E s (map Frame away)) \<noteq> None"
    using assms(1) by (rule ship_run_frames)
  then have "modeState (updatePhysics E e (run E s (map Frame away)))
      = (Some False, Some True, False)"
    using assms(2) by (rule follow_frame)
  moreover have "modeState (updatePhysics E e s) = (Some False, Some True, False)"
    using assms by (rule follow_frame)
  ultimately show ?thesis by (simp add: run_snoc)
qed

theorem back_to_follow_witness:
  "ship (vessel 0 0) \<noteq> None \<and>
   isFollowMode (frame_at (held False False False False) True 16) \<and>
   modeState (run sample_engine (vessel 0 0)
     (map Frame ([frame_at (held False False False False) False 0]
        @ [frame_at (held False False False False) True 16])))
     = (Some False, Some True, False)"
proof -
  have l: "ship (vessel 0 0) \<noteq> None" by (simp add: vessel_def)
  have f: "isFollowMode (frame_at (held False False False False) True 16)"
    by (simp add: isFollowMode_def frame_at_def)
  from back_to_follow[OF l f, of sample_engine
      "[frame_at (held False False False False) False 0]"] l f
  show ?thesis by blast
qed

lemma ease_one: "ease 1 = 1"
  by (simp add: ease_def)

lemma lerpVectors_exact_end: "lerpVectors_exact a b 1 = b"
  by (simp add: lerpVectors_exact_def)

lemma progress_done: "1 \<le> progress e t0 \<longleftrightarrow> 1500 \<le> now e - t0"
  by (simp add: progress_def)

lemma progress_done_eq: "1500 \<le> now e - t0 \<Longrightarrow> progress e t0 = 1"
  by (simp add: progress_def)

lemma transitionStep_running:
  "\<not> 1500 \<le> now e - t0 \<Longrightarrow>
   transitionStep E e t0 sp tp s
     = s\<lparr>camera := \<lparr>position = lerpVectors E sp tp (ease (progress e t0)),
                     lookingAt = shipGroup_position s\<rparr>\<rparr>"
  by (simp add: transitionStep_def progress_done Let_def)

lemma transitionStep_done:
  "1500 \<le> now e - t0 \<Longrightarrow>
   transitionStep E e t0 sp tp s
     = s\<lparr>camera := \<lparr>position = lerpVectors E sp tp 1, lookingAt = shipGroup_position s\<rparr>,
         isTransitioning := Some False,
         controls := (controls s)\<lparr>target := shipGroup_position s\<rparr>\<rparr>"
  by (simp add: transitionStep_def progress_done_eq ease_one Let_def)

lemma start_transition:
  assumes "ship s \<noteq> None" and "wasFollowMode s \<noteq> Some False" and "\<not> isFollowMode e"
    and "\<not> 1500 \<le> now e - now_switch e"
  shows "transitioning (now_switch e) (position (camera s))
           (matrixWorld e (Vector3 0 60 150)) (updatePhysics E e s)"
proof -
  from assms(1) obtain roll where r: "ship s = Some roll" by auto
  from assms(2) have w: "wasFollowMode s = None \<or> wasFollowMode s = Some True"
    by (cases "wasFollowMode s") auto
  show ?thesis
    using w assms(3) transitionStep_running[OF assms(4)]
    by (auto simp: r transitioning_def updatePhysics_def readouts_def cameraController_def
        initWindow_def startTransition_def kinematics_def Let_def)
qed

lemma keep_transition:
  assumes "transitioning t0 sp tp s" and "\<not> isFollowMode e" and "\<not> 1500 \<le> now e - t0"
  shows "transitioning t0 sp tp (updatePhysics E e s)"
proof -
  from assms(1) obtain roll where r: "ship s = Some roll" by (auto simp: transitioning_def)
  show ?thesis
    using assms(1,2) transitionStep_running[OF assms(3)]
    by (auto simp: r transitioning_def updatePhysics_def readouts_def cameraController_def
        initWindow_def startTransition_def kinematics_def Let_def)
qed

lemma finish_transition:
  assumes "transitioning t0 sp tp s" and "\<not> isFollowMode e" and "1500 \<le> now e - t0"
  shows "arrived (lerpVectors E sp tp 1) (updatePhysics E e s)"
proof -
  from assms(1) obtain roll where r: "ship s = Some roll" by (auto simp: transitioning_def)
  show ?thesis
    using assms(1,2) transitionStep_done[OF assms(3)]
    by (auto simp: r transitioning_def arrived_def updatePhysics_def readouts_def
        cameraController_def initWindow_def startTransition_def kinematics_def Let_def)
qed

lemma immediate_transition:
  assumes "ship s \<noteq> None" and "wasFollowMode s \<noteq> Some False" and "\<not> isFollowMode e"
    and "1500 \<le> now e - now_switch e"
  shows "arrived (lerpVectors E (position (camera s)) (matrixWorld e (Vector3 0 60 150)) 1)
           (updatePhysics E e s)"
proof -
  from assms(1) obtain roll where r: "ship s = Some roll" by auto
  from assms(2) have w: "wasFollowMode s = None \<or> wasFollowMode s = Some True"
    by (cases "wasFollowMode s") auto
  show ?thesis
    using w assms(3) transitionStep_done[OF assms(4)]
    by (auto simp: r arrived_def updatePhysics_def readouts_def cameraController_def
        initWindow_def startTransition_def kinematics_def Let_def)
qed

lemma keep_transition_run:
  "transitioning t0 sp tp s \<Longrightarrow>
   \<forall>e\<in>set es. \<not> isFollowMode e \<and> \<not> 1500 \<le> now e - t0 \<Longrightarrow>
   transitioning t0 sp tp (run E s (map Frame es))"
proof (induction es arbitrary: s)
  case Nil
  then show ?case by simp
next
  case (Cons e es)
  have "transitioning t0 sp tp (updatePhysics E e s)"
    using Cons.prems by (intro keep_transition) simp_all
  then have "transitioning t0 sp tp (run E (updatePhysics E e s) (map Frame es))"
    using Cons.prems by (intro Cons.IH) simp_all
  then show ?case by simp
qed

lemma transition_run_arrived:
  assumes loaded: "ship s \<noteq> None"
    and follow: "wasFollowMode s \<noteq> Some False"
    and free: "\<forall>e\<in>set (fs @ [eN]). \<not> isFollowMode e"
    and early: "\<forall>e\<in>set fs. now e - now_switch (hd (fs @ [eN])) < 1500"
    and late: "1500 \<le> now eN - now_switch (hd (fs @ [eN]))"
  shows "arrived
           (lerpVectors E (position (camera s))
              (matrixWorld (hd (fs @ [eN])) (Vector3 0 60 150)) 1)
           (run E s (map Frame (fs @ [eN])))"
proof (cases fs)
  case Nil
  then show ?thesis
    using immediate_transition[OF loaded follow, of eN E] free late by simp
next
  case (Cons e0 es)
  have t: "transitioning (now_switch e0) (position (camera s))
      (matrixWorld e0 (Vector3 0 60 150)) (updatePhysics E e0 s)"
    using loaded follow free early Cons by (intro start_transition) auto
  have "transitioning (now_switch e0) (position (camera s))
      (matrixWorld e0 (Vector3 0 60 150)) (run E (updatePhysics E e0 s) (map Frame es))"
    using t free early Cons by (intro keep_transition_run) auto
  then have "arrived
      (lerpVectors E (position (camera s)) (matrixWorld e0 (Vector3 0 60 150)) 1)
      (updatePhysics E eN (run E (updatePhysics E e0 s) (map Frame es)))"
    using free late Cons by (intro finish_transition) auto
  then show ?thesis
    using Cons run_snoc[of E "updatePhysics E e0 s" "map Frame es" eN] by simp
qed

text \<open>
  Claim C7, as the code has it. A loaded vessel in follow mode leaves it: every frame from
  the first one on has the mode flag off, the first one captures start position, target
  and start time, the frames \<open>fs\<close> see less than 1500 ms elapsed and the frame \<open>eN\<close> is
  the first to see 1500 ms or more (\<open>fs\<close> may be empty, and then \<open>eN\<close> itself captures).
  After \<open>eN\<close> the camera is where \<open>lerpVectors\<close> puts it for the captured start, the
  captured target and the parameter 1 (the ease-out cubic at the clamped progress 1); the
  transitioning flag is false with the latch still false (free roam); and the orbit
  target is the position of the vessel after that frame. With an engine that interpolates
  in exact arithmetic the camera is at the captured target.
\<close>

theorem transition_completes:
  assumes loaded: "ship s \<noteq> None"
    and follow: "wasFollowMode s \<noteq> Some False"
    and free: "\<forall>e\<in>set (fs @ [eN]). \<not> isFollowMode e"
    and early: "\<forall>e\<in>set fs. now e - now_switch (hd (fs @ [eN])) < 1500"
    and late: "1500 \<le> now eN - now_switch (hd (fs @ [eN]))"
  shows "position (camera (run E s (map Frame (fs @ [eN]))))
           = lerpVectors E (position (camera s))
               (matrixWorld (hd (fs @ [eN])) (Vector3 0 60 150)) 1 \<and>
         (lerpVectors E = lerpVectors_exact \<longrightarrow>
            position (camera (run E s (map Frame (fs @ [eN]))))
              = matrixWorld (hd (fs @ [eN])) (Vector3 0 60 150)) \<and>
         isTransitioning (run E s (map Frame (fs @ [eN]))) = Some False \<and>
         wasFollowMode (run E s (map Frame (fs @ [eN]))) = Some False \<and>
         target (controls (run E s (map Frame (fs @ [eN]))))
           = shipGroup_position (run E s (map Frame (fs @ [eN])))"
proof -
  have a: "arrived
      (lerpVectors E (position (camera s))
         (matrixWorld (hd (fs @ [eN])) (Vector3 0 60 150)) 1)
      (run E s (map Frame (fs @ [eN])))"
    using loaded follow free early late by (rule transition_run_arrived)
  then have p: "position (camera (run E s (map Frame (fs @ [eN]))))
      = lerpVectors E (position (camera s))
          (matrixWorld (hd (fs @ [eN])) (Vector3 0 60 150)) 1"
    by (simp add: arrived_def)
  have "position (camera (run E s (map Frame (fs @ [eN]))))
      = matrixWorld (hd (fs @ [eN])) (Vector3 0 60 150)"
    if "lerpVectors E = lerpVectors_exact"
    unfolding p that by (rule lerpVectors_exact_end)
  with a p show ?thesis by (simp add: arrived_def)
qed

theorem transition_completes_witness:
  "ship (vessel 0 0) \<noteq> None \<and> wasFollowMode (vessel 0 0) \<noteq> Some False \<and>
   lerpVectors sample_engine = lerpVectors_exact \<and>
   position (camera (run sample_engine (vessel 0 0)
     (map Frame ([frame_at (held False False False False) False 0,
                  frame_at (held False False False False) False 700]
        @ [frame_at (held False False False False) False 1500])))) = Vector3 0 60 150"
proof -
  let ?fs = "[frame_at (held False False False False) False 0,
              frame_at (held False False False False) False 700]"
  let ?eN = "frame_at (held False False False False) False 1500"
  have l: "ship (vessel 0 0) \<noteq> None" by (simp add: vessel_def)
  have w: "wasFollowMode (vessel 0 0) \<noteq> Some False" by (simp add: vessel_def initial_def)
  have f: "\<forall>e\<in>set (?fs @ [?eN]). \<not> isFollowMode e"
    by (simp add: isFollowMode_def frame_at_def)
  have e: "\<forall>e\<in>set ?fs. now e - now_switch (hd (?fs @ [?eN])) < 1500"
    by (simp add: frame_at_def)
  have d: "1500 \<le> now ?eN - now_switch (hd (?fs @ [?eN]))"
    by (simp add: frame_at_def)
  have m: "matrixWorld (hd (?fs @ [?eN])) (Vector3 0 60 150) = Vector3 0 60 150"
    by (simp add: frame_at_def)
  have x: "lerpVectors sample_engine = lerpVectors_exact"
    by (simp add: sample_engine_def)
  have "position (camera (run sample_engine (vessel 0 0) (map Frame (?fs @ [?eN]))))
      = matrixWorld (hd (?fs @ [?eN])) (Vector3 0 60 150)"
    using transition_completes[OF l w f e d, of sample_engine] x by blast
  then have "position (camera (run sample_engine (vessel 0 0) (map Frame (?fs @ [?eN]))))
      = Vector3 0 60 150"
    by (simp only: m)
  with l w x show ?thesis by blast
qed

text \<open>
  The claim as written puts the camera exactly at the captured target. On doubles
  \<open>lerpVectors\<close> computes \<open>start + (target - start) * 1\<close> with the difference rounded:
  from x = 20.960621913010677 toward x = 0.20953793149617678 the difference is rounded to
  a multiple of \<open>2^(-48)\<close>, and the camera ends at 0.2095379314961754.
\<close>

lemma binade_eq:
  "lo \<le> e \<Longrightarrow> e \<le> lo + int n \<Longrightarrow> 2 powi e \<le> a \<Longrightarrow> a < 2 powi (e + 1) \<Longrightarrow>
   binade n lo a = e"
proof (induction n)
  case 0
  then show ?case by simp
next
  case (Suc n)
  show ?case
  proof (cases "2 powi (lo + int (Suc n)) \<le> a")
    case True
    have "\<not> e + 1 \<le> lo + int (Suc n)"
    proof
      assume "e + 1 \<le> lo + int (Suc n)"
      then have "(2::real) powi (e + 1) \<le> 2 powi (lo + int (Suc n))"
        by (intro power_int_increasing) simp_all
      with True Suc.prems(4) show False by linarith
    qed
    with Suc.prems(2) have "e = lo + int (Suc n)" by simp
    with True show ?thesis by simp
  next
    case False
    with Suc.prems(3) have "e \<noteq> lo + int (Suc n)" by auto
    with Suc.prems(2) have "e \<le> lo + int n" by simp
    with Suc.prems(1) have "binade n lo a = e"
      using Suc.prems(3,4) by (rule Suc.IH)
    with False show ?thesis by simp
  qed
qed

lemma roundDouble_in_binade:
  assumes "- 1022 \<le> e" and "e \<le> 1023" and "2 powi e \<le> \<bar>x\<bar>" and "\<bar>x\<bar> < 2 powi (e + 1)"
  shows "roundDouble x = of_int (round_even (x / 2 powi (e - 52))) * 2 powi (e - 52)"
proof -
  have "binade 2045 (- 1022) \<bar>x\<bar> = e"
    using assms by (intro binade_eq) simp_all
  then show ?thesis by (simp add: roundDouble_def Let_def)
qed

lemma lerp_double_misses:
  "lerp_double (2949945282402773 / 2 ^ 47) (3774699800824665 / 2 ^ 54) 1
     = 58979684387885 / 2 ^ 48"
proof -
  let ?s = "2949945282402773 / 2 ^ 47 :: real"
  let ?t = "3774699800824665 / 2 ^ 54 :: real"
  let ?d = "- 5840910880417661 / 2 ^ 48 :: real"
  let ?r = "58979684387885 / 2 ^ 48 :: real"
  have q1: "(?t - ?s) / 2 powi (4 - 52) = - 373818296346730279 / 64"
    by (simp add: power_int_minus)
  have e1: "round_even (- 373818296346730279 / 64) = - 5840910880417661"
    by (simp add: round_even_def)
  have "roundDouble (?t - ?s)
      = of_int (round_even ((?t - ?s) / 2 powi (4 - 52))) * 2 powi (4 - 52)"
    by (rule roundDouble_in_binade) simp_all
  also have "\<dots> = ?d"
    unfolding q1 e1 by (simp add: power_int_minus)
  finally have d: "roundDouble (?t - ?s) = ?d" .
  have q2: "?d * 1 / 2 powi (4 - 52) = - 5840910880417661"
    by (simp add: power_int_minus)
  have e2: "round_even (- 5840910880417661) = - 5840910880417661"
    by (simp add: round_even_def)
  have "roundDouble (?d * 1)
      = of_int (round_even (?d * 1 / 2 powi (4 - 52))) * 2 powi (4 - 52)"
    by (rule roundDouble_in_binade) simp_all
  also have "\<dots> = ?d"
    unfolding q2 e2 by (simp add: power_int_minus)
  finally have m: "roundDouble (?d * 1) = ?d" .
  have q3: "(?s + ?d) / 2 powi (- 3 - 52) = 7549399601649280"
    by (simp add: power_int_minus)
  have e3: "round_even 7549399601649280 = 7549399601649280"
    by (simp add: round_even_def)
  have "roundDouble (?s + ?d)
      = of_int (round_even ((?s + ?d) / 2 powi (- 3 - 52))) * 2 powi (- 3 - 52)"
    by (rule roundDouble_in_binade) (simp_all add: power_int_minus)
  also have "\<dots> = ?r"
    unfolding q3 e3 by (simp add: power_int_minus)
  finally have r: "roundDouble (?s + ?d) = ?r" .
  show ?thesis
    unfolding lerp_double_def d m r ..
qed

theorem transition_rounding_counterexample:
  "ship trailing \<noteq> None \<and> wasFollowMode trailing \<noteq> Some False \<and>
   \<not> isFollowMode (leaving_at 0) \<and> \<not> isFollowMode (leaving_at 1500) \<and>
   now (leaving_at 0) - now_switch (leaving_at 0) < 1500 \<and>
   1500 \<le> now (leaving_at 1500) - now_switch (leaving_at 0) \<and>
   vec_x (matrixWorld (leaving_at 0) (Vector3 0 60 150)) = 3774699800824665 / 2 ^ 54 \<and>
   vec_x (position (camera (run double_engine trailing
      (map Frame ([leaving_at 0] @ [leaving_at 1500]))))) = 58979684387885 / 2 ^ 48 \<and>
   position (camera (run double_engine trailing
      (map Frame ([leaving_at 0] @ [leaving_at 1500]))))
     \<noteq> matrixWorld (leaving_at 0) (Vector3 0 60 150)"
proof -
  let ?run = "run double_engine trailing (map Frame ([leaving_at 0] @ [leaving_at 1500]))"
  have l: "ship trailing \<noteq> None" by (simp add: trailing_def vessel_def)
  have w: "wasFollowMode trailing \<noteq> Some False"
    by (simp add: trailing_def vessel_def initial_def)
  have f: "\<forall>e\<in>set ([leaving_at 0] @ [leaving_at 1500]). \<not> isFollowMode e"
    by (simp add: isFollowMode_def leaving_at_def)
  have e: "\<forall>e\<in>set [leaving_at 0].
      now e - now_switch (hd ([leaving_at 0] @ [leaving_at 1500])) < 1500"
    by (simp add: leaving_at_def)
  have d: "1500 \<le> now (leaving_at 1500) - now_switch (hd ([leaving_at 0] @ [leaving_at 1500]))"
    by (simp add: leaving_at_def)
  have "arrived
      (lerpVectors double_engine (position (camera trailing))
         (matrixWorld (hd ([leaving_at 0] @ [leaving_at 1500])) (Vector3 0 60 150)) 1)
      ?run"
    using l w f e d by (rule transition_run_arrived)
  then have "vec_x (position (camera ?run))
      = lerp_double (2949945282402773 / 2 ^ 47) (3774699800824665 / 2 ^ 54) 1"
    by (simp add: arrived_def double_engine_def sample_engine_def lerpVectors_double_def
        trailing_def leaving_at_def Vector3_def)
  then have x: "vec_x (position (camera ?run)) = 58979684387885 / 2 ^ 48"
    by (simp only: lerp_double_misses)
  have t: "vec_x (matrixWorld (leaving_at 0) (Vector3 0 60 150)) = 3774699800824665 / 2 ^ 54"
    by (simp add: leaving_at_def Vector3_def)
  have "vec_x (position (camera ?run)) \<noteq> vec_x (matrixWorld (leaving_at 0) (Vector3 0 60 150))"
    unfolding x t by simp
  then have n: "position (camera ?run) \<noteq> matrixWorld (leaving_at 0) (Vector3 0 60 150)"
    by auto
  have f0: "\<not> isFollowMode (leaving_at 0)" "\<not> isFollowMode (leaving_at 1500)"
    by (simp_all add: isFollowMode_def leaving_at_def)
  have e0: "now (leaving_at 0) - now_switch (leaving_at 0) < 1500"
    by (simp add: leaving_at_def)
  have d0: "1500 \<le> now (leaving_at 1500) - now_switch (leaving_at 0)"
    by (simp add: leaving_at_def)
  from l w f0 e0 d0 t x n show ?thesis by blast
qed

subsection \<open>The speed readout\<close>

lemma decimal_no_minus: "CHR ''-'' \<notin> set (decimal n)"
proof (induction n rule: decimal.induct)
  case (1 n)
  show ?case
  proof (cases "n < 10")
    case True
    then show ?thesis by (subst decimal.simps) (simp add: digit_def)
  next
    case False
    then show ?thesis using 1 by (subst decimal.simps) (simp add: digit_def)
  qed
qed

lemma toFixed_no_minus:
  assumes "0 \<le> x" and "x < 10 ^ 21"
  shows "CHR ''-'' \<notin> set (toFixed toStr x f)"
proof -
  have "CHR ''-'' \<notin> set (take i (replicate j (CHR ''0'') @ decimal n))" for i j n
    using decimal_no_minus[of n] by (auto dest!: in_set_takeD)
  moreover have "CHR ''-'' \<notin> set (drop i (replicate j (CHR ''0'') @ decimal n))" for i j n
    using decimal_no_minus[of n] by (auto dest!: in_set_dropD)
  moreover have "CHR ''-'' \<notin> set (take i (decimal n))" for i n
    using decimal_no_minus[of n] by (auto dest!: in_set_takeD)
  moreover have "CHR ''-'' \<notin> set (drop i (decimal n))" for i n
    using decimal_no_minus[of n] by (auto dest!: in_set_dropD)
  ultimately show ?thesis
    using assms decimal_no_minus by (simp add: toFixed_def Let_def)
qed

lemma speedVal_cameraController [simp]: "speedVal (cameraController E e s) = speedVal s"
  by (simp add: cameraController_def initWindow_def followCamera_def startTransition_def
      transitionStep_def freeCamera_def Let_def split: prod.splits)

lemma speedVal_updatePhysics:
  "ship s \<noteq> None \<Longrightarrow>
   speedVal (updatePhysics E e s)
     = setText (speedVal s) (currentSpeed E (speed (updatePhysics E e s)))"
  by (auto simp: updatePhysics_def readouts_def kinematics_def Let_def)

lemma setText_Some: "setText (Some old) txt = Some txt"
  by (simp add: setText_def)

text \<open>
  Claim C10. On a loaded vessel whose page has the speed element, the text left in the
  element is \<open>toFixed(1)\<close> of \<open>\<bar>speed\<bar> * 100\<close>, for the speed the frame has just computed.
  That number is not negative and the text has no minus sign; a frame that ends at the
  opposite speed leaves the same text; and the unconditional assignment of the earlier
  revision writes what the guarded one does.
\<close>

theorem speed_readout:
  assumes "ship s \<noteq> None" and "speedVal s \<noteq> None"
  shows "speedVal (updatePhysics E e s)
           = Some (toFixed (numberToString E) (\<bar>speed (updatePhysics E e s)\<bar> * 100) 1) \<and>
         0 \<le> \<bar>speed (updatePhysics E e s)\<bar> * 100 \<and>
         CHR ''-'' \<notin> set (toFixed (numberToString E) (\<bar>speed (updatePhysics E e s)\<bar> * 100) 1) \<and>
         (\<forall>e' s'. ship s' \<noteq> None \<and> speedVal s' \<noteq> None \<and>
              speed (updatePhysics E e' s') = - speed (updatePhysics E e s)
            \<longrightarrow> speedVal (updatePhysics E e' s') = speedVal (updatePhysics E e s)) \<and>
         speedVal_part_000 E s = speedVal (readouts E s)"
proof (intro conjI allI impI)
  from assms(2) obtain old where old: "speedVal s = Some old" by auto
  show a: "speedVal (updatePhysics E e s)
      = Some (toFixed (numberToString E) (\<bar>speed (updatePhysics E e s)\<bar> * 100) 1)"
    using assms(1) by (simp add: speedVal_updatePhysics old setText_Some currentSpeed_def)
  show "0 \<le> \<bar>speed (updatePhysics E e s)\<bar> * 100" by simp
  have "\<bar>speed (updatePhysics E e s)\<bar> \<le> 2"
    using assms(1) clampSpeed_bounds[of "longitudinal (keys e) (speed s)"]
    by (simp add: speed_updatePhysics maxSpeed_def abs_if)
  then have "\<bar>speed (updatePhysics E e s)\<bar> * 100 < 10 ^ 21" by simp
  then show "CHR ''-'' \<notin> set (toFixed (numberToString E) (\<bar>speed (updatePhysics E e s)\<bar> * 100) 1)"
    by (intro toFixed_no_minus) simp_all
  show "speedVal_part_000 E s = speedVal (readouts E s)"
    by (simp add: speedVal_part_000_def readouts_def setText_def split: option.splits)
  fix e' s'
  assume h: "ship s' \<noteq> None \<and> speedVal s' \<noteq> None \<and>
     speed (updatePhysics E e' s') = - speed (updatePhysics E e s)"
  then obtain old' where old': "speedVal s' = Some old'" by auto
  have "speedVal (updatePhysics E e' s')
      = Some (toFixed (numberToString E) (\<bar>speed (updatePhysics E e' s')\<bar> * 100) 1)"
    using h by (simp add: speedVal_updatePhysics old' setText_Some currentSpeed_def)
  then show "speedVal (updatePhysics E e' s') = speedVal (updatePhysics E e s)"
    using h a by simp
qed

theorem speed_readout_witness:
  "ship (vessel (1 / 2) 0) \<noteq> None \<and> speedVal (vessel (1 / 2) 0) \<noteq> None \<and>
   speed (updatePhysics sample_engine (frame_at (held False False False False) True 0)
      (vessel (1 / 2) 0)) = 49 / 100 \<and>
   speed (updatePhysics sample_engine (frame_at (held False False False False) True 0)
      (vessel (- 1 / 2) 0)) = - 49 / 100 \<and>
   speedVal (updatePhysics sample_engine (frame_at (held False False False False) True 0)
      (vessel (1 / 2) 0)) = Some ''49.0'' \<and>
   speedVal (updatePhysics sample_engine (frame_at (held False False False False) True 0)
      (vessel (- 1 / 2) 0)) = Some ''49.0''"
proof -
  let ?e = "frame_at (held False False False False) True 0"
  let ?s = "vessel (1 / 2) 0"
  let ?s' = "vessel (- 1 / 2) 0"
  have l: "ship ?s \<noteq> None" by (simp add: vessel_def)
  have t: "speedVal ?s \<noteq> None" by (simp add: vessel_def initial_def)
  have l': "ship ?s' \<noteq> None" by (simp add: vessel_def)
  have t': "speedVal ?s' \<noteq> None" by (simp add: vessel_def initial_def)
  have v: "speed (updatePhysics sample_engine ?e ?s) = 49 / 100"
    using l by (simp add: speed_updatePhysics vessel_def frame_at_def held_def
        longitudinal_def clampSpeed_def maxSpeed_def deceleration_def)
  have v': "speed (updatePhysics sample_engine ?e ?s') = - 49 / 100"
    using l' by (simp add: speed_updatePhysics vessel_def frame_at_def held_def
        longitudinal_def clampSpeed_def maxSpeed_def deceleration_def)
  have d: "decimal 490 = ''490''"
    by (simp add: decimal.simps digit_def)
  have "speedVal (updatePhysics sample_engine ?e ?s)
      = Some (toFixed (numberToString sample_engine)
          (\<bar>speed (updatePhysics sample_engine ?e ?s)\<bar> * 100) 1)"
    using speed_readout[OF l t, of sample_engine ?e] by blast
  also have "\<dots> = Some ''49.0''"
    unfolding v by (simp add: toFixed_def d Let_def)
  finally have r: "speedVal (updatePhysics sample_engine ?e ?s) = Some ''49.0''" .
  have "speed (updatePhysics sample_engine ?e ?s')
      = - speed (updatePhysics sample_engine ?e ?s)"
    unfolding v v' by simp
  then have "speedVal (updatePhysics sample_engine ?e ?s')
      = speedVal (updatePhysics sample_engine ?e ?s)"
    using speed_readout[OF l t, of sample_engine ?e] l' t' by blast
  then have r': "speedVal (updatePhysics sample_engine ?e ?s') = Some ''49.0''"
    by (simp only: r)
  from l t v v' r r' show ?thesis by blast
qed

end
